theory Spec2Isabelle
  imports Complex_Main
begin

section \<open>Text and the chunker (\<open>semantic_chat.py\<close>, \<open>chunk_text\<close>)\<close>

text \<open>
  A Python \<open>str\<close> is a sequence of code points and \<open>len\<close> counts them. The model uses
  \<open>string\<close> with one \<open>char\<close> per code point, so it covers the texts whose code points
  are below 256; \<open>length\<close> is then Python's \<open>len\<close>.

  \<open>is_space\<close> is the whitespace that \<open>str.strip()\<close> removes, on that range: the code
  points 9 to 13, 28 to 32, 133 and 160.
\<close>

definition is_space :: "char \<Rightarrow> bool" where
  "is_space c \<longleftrightarrow>
     (let n = (of_char c :: nat)
      in (9 \<le> n \<and> n \<le> 13) \<or> (28 \<le> n \<and> n \<le> 32) \<or> n = 133 \<or> n = 160)"

text \<open>The character class \<open>[.!?]\<close> of the splitting pattern.\<close>

definition is_terminal :: "char \<Rightarrow> bool" where
  "is_terminal c \<longleftrightarrow> c = CHR ''.'' \<or> c = CHR ''!'' \<or> c = CHR ''?''"

text \<open>\<open>s.strip()\<close>: leading and trailing whitespace removed.\<close>

definition strip :: "string \<Rightarrow> string" where
  "strip s = rev (dropWhile is_space (rev (dropWhile is_space s)))"

text \<open>
  \<open>re.split(r'[.!?]+', text)\<close>: the pieces of the text between maximal runs of terminal
  characters. A text with \<open>n\<close> such runs has \<open>n + 1\<close> pieces, and the first and the last
  piece are empty when the text starts or ends with a run. Reading the text from the left:
  a terminal character closes the current piece and the rest of its run is skipped; any
  other character belongs to the first piece of what follows.
\<close>

function re_split :: "string \<Rightarrow> string list" where
  "re_split [] = [[]]"
| "re_split (c # cs) =
     (if is_terminal c then [] # re_split (dropWhile is_terminal cs)
      else (case re_split cs of
              [] \<Rightarrow> [[c]]
            | p # ps \<Rightarrow> (c # p) # ps))"
  by pat_completeness auto
termination
  by (relation "measure length") (auto simp: length_dropWhile_le less_Suc_eq_le)

text \<open>
  The loop of \<open>chunk_text\<close> over the sentences, with its two variables \<open>chunks\<close> and
  \<open>current_chunk\<close> as the state:
  \<^verbatim>\<open>
    for sentence in sentences:
        sentence = sentence.strip()
        if not sentence:
            continue
        if len(current_chunk) + len(sentence) < self.chunk_size:
            current_chunk += sentence + ". "
        else:
            if current_chunk:
                chunks.append(current_chunk.strip())
            current_chunk = sentence + ". "
  \<close>
\<close>

fun chunk_loop :: "nat \<Rightarrow> string list \<Rightarrow> string list \<Rightarrow> string \<Rightarrow> string list \<times> string" where
  "chunk_loop sz [] chunks current_chunk = (chunks, current_chunk)"
| "chunk_loop sz (sentence # sentences) chunks current_chunk =
     (let sentence = strip sentence
      in if sentence = [] then chunk_loop sz sentences chunks current_chunk
         else if length current_chunk + length sentence < sz
           then chunk_loop sz sentences chunks (current_chunk @ sentence @ ''. '')
         else chunk_loop sz sentences
                (if current_chunk \<noteq> [] then chunks @ [strip current_chunk] else chunks)
                (sentence @ ''. ''))"

text \<open>
  \<open>chunk_text\<close> with \<open>self.chunk_size\<close> as its first argument: split, run the loop from
  no chunks and an empty buffer, and flush the last buffer when it is not empty.
\<close>

definition chunk_text :: "nat \<Rightarrow> string \<Rightarrow> string list" where
  "chunk_text sz text =
     (case chunk_loop sz (re_split text) [] [] of
        (chunks, current_chunk) \<Rightarrow>
          if current_chunk \<noteq> [] then chunks @ [strip current_chunk] else chunks)"

text \<open>\<open>sep.join(xs)\<close>.\<close>

fun join :: "'a list \<Rightarrow> 'a list list \<Rightarrow> 'a list" where
  "join sep [] = []"
| "join sep [x] = x"
| "join sep (x # y # ys) = x @ sep @ join sep (y # ys)"

text \<open>
  The texts of the conversation history that go through JSON, the source titles, may hold
  any character: for them a Python \<open>str\<close> is the list of its code points, numbers below
  \<open>0x110000\<close>, and the JSON text is such a list too. \<open>ord\<close> is Python's \<open>ord\<close> on a
  character of the model, and \<open>codepoints\<close> gives a text of the model as such a list.
\<close>

type_synonym unicode = "nat list"

definition ord :: "char \<Rightarrow> nat" where
  "ord c = of_char c"

definition codepoints :: "string \<Rightarrow> unicode" where
  "codepoints s = map ord s"

section \<open>The collaborators and the similarity index\<close>

text \<open>
  Embeddings are float32 vectors; the model idealises them as lists of reals, so rounding
  is outside it. The two pretrained models are fields of the engine, as in \<open>__init__\<close>:
  \<open>embedding_model\<close> is \<open>self.embedding_model.encode\<close>, one vector per text, and
  \<open>qa_pipeline\<close> is the \<open>result['answer']\<close> of \<open>self.qa_pipeline\<close>. Each returns
  \<open>None\<close> where the Python call raises.
\<close>

type_synonym vec = "real list"

datatype error = EmbeddingError | IndexError

definition inner_product :: "vec \<Rightarrow> vec \<Rightarrow> real" where
  "inner_product a b = sum_list (map (\<lambda>(x, y). x * y) (zip a b))"

text \<open>\<open>faiss.normalize_L2\<close>: a row is divided by its norm; a zero row is left as it is.\<close>

definition normalize_L2 :: "vec \<Rightarrow> vec" where
  "normalize_L2 v =
     (let nr = sqrt (sum_list (map (\<lambda>x. x * x) v))
      in if 0 < nr then map (\<lambda>x. x / nr) v else v)"

definition FLT_MAX :: real where
  "FLT_MAX = 340282346638528859811704183484516925440"

text \<open>
  \<open>IndexFlatIP.search(x, k)\<close> of the faiss library, for one query row: the inner product
  of the query with every stored row, the \<open>k\<close> best as pairs of score and row number in
  descending order of score. The library always returns \<open>k\<close> pairs: when the index holds
  fewer than \<open>k\<close> rows, the missing ones are the label \<open>-1\<close> with the score
  \<open>-FLT_MAX\<close>. The library does not document the order of rows of equal score; here
  they keep the order of insertion.
\<close>

definition faiss_search :: "vec list \<Rightarrow> vec \<Rightarrow> nat \<Rightarrow> (real \<times> int) list" where
  "faiss_search xb q k =
     (let scored = map (\<lambda>i. (inner_product q (xb ! i), int i)) [0..<length xb]
      in take k (sort_key (\<lambda>(s, i). - s) scored)
         @ replicate (k - length xb) (- FLT_MAX, - 1))"

text \<open>Python's \<open>xs[i]\<close> on a list: a negative index counts from the end.\<close>

definition py_getitem :: "'a list \<Rightarrow> int \<Rightarrow> error + 'a" where
  "py_getitem xs i =
     (if 0 \<le> i \<and> i < int (length xs) then Inr (xs ! nat i)
      else if i < 0 \<and> - int (length xs) \<le> i then Inr (xs ! nat (int (length xs) + i))
      else Inl IndexError)"

section \<open>The tables of \<open>users.db\<close>\<close>

record story =
  story_id :: nat
  user_id :: nat
  title :: string
  content :: string

text \<open>A row of the table \<open>story_chunks\<close>; the embedding is the blob of the vector.\<close>

record chunk_row =
  row_story_id :: nat
  row_chunk_text :: string
  row_chunk_index :: nat
  row_embedding :: vec

text \<open>
  A row of \<open>conversation_history\<close>. The column \<open>sources\<close> is nullable text:
  \<open>None\<close> is SQL NULL.
\<close>

record conversation =
  conv_user_id :: nat
  conv_question :: string
  conv_answer :: string
  conv_sources :: "unicode option"
  conv_created_at :: nat

text \<open>
  The database: each table is the list of its rows in order of insertion, which is the
  order a \<open>SELECT\<close> without \<open>ORDER BY\<close> returns them in. \<open>story_seq\<close> is the largest
  story id given out so far (\<open>AUTOINCREMENT\<close>), and \<open>now\<close> is the value of
  \<open>CURRENT_TIMESTAMP\<close>.
\<close>

record database =
  stories :: "story list"
  story_seq :: nat
  story_chunks_table :: "chunk_row list"
  conversation_history :: "conversation list"
  now :: nat

text \<open>The SQL test \<open>x IN (...)\<close> on a list of values.\<close>

primrec sql_in :: "'a \<Rightarrow> 'a list \<Rightarrow> bool" where
  "sql_in x [] \<longleftrightarrow> False"
| "sql_in x (y # ys) \<longleftrightarrow> x = y \<or> sql_in x ys"

section \<open>The engine (\<open>SemanticChatEngine\<close>)\<close>

text \<open>The dictionaries of \<open>chunk_metadata\<close>, kept in \<open>self.story_chunks\<close>.\<close>

record chunk_info =
  info_story_id :: nat
  info_chunk_index :: nat
  info_chunk_text :: string

text \<open>
  The attributes of the engine. \<open>index\<close> is \<open>None\<close> or the rows of the
  \<open>faiss.IndexFlatIP\<close>. There is one engine in the process (\<open>chat_engine\<close>), shared by
  all users.
\<close>

record engine =
  embedding_model :: "string list \<Rightarrow> vec list option"
  qa_pipeline :: "string \<Rightarrow> string \<Rightarrow> string option"
  index :: "vec list option"
  story_chunks :: "chunk_info list"
  chunk_size :: nat
  overlap :: nat

definition init_engine ::
  "(string list \<Rightarrow> vec list option) \<Rightarrow> (string \<Rightarrow> string \<Rightarrow> string option) \<Rightarrow> engine" where
  "init_engine em qa =
     \<lparr>embedding_model = em, qa_pipeline = qa, index = None, story_chunks = [],
      chunk_size = 512, overlap = 50\<rparr>"

text \<open>The title and the content of a story, as \<open>f"{title}\n\n{content}"\<close>.\<close>

definition full_text :: "story \<Rightarrow> string" where
  "full_text s = title s @ [CHR 0x0A, CHR 0x0A] @ content s"

text \<open>The chunks of one story with their positions: the inner loop over \<open>enumerate(chunks)\<close>.\<close>

definition story_metadata :: "nat \<Rightarrow> story \<Rightarrow> chunk_info list" where
  "story_metadata sz s =
     map (\<lambda>(idx, chunk).
            \<lparr>info_story_id = story_id s, info_chunk_index = idx, info_chunk_text = chunk\<rparr>)
         (enumerate 0 (chunk_text sz (full_text s)))"

text \<open>The loop of \<open>build_semantic_index\<close> over the stories of the user.\<close>

definition collect_chunks :: "nat \<Rightarrow> story list \<Rightarrow> chunk_info list" where
  "collect_chunks sz user_stories = concat (map (story_metadata sz) user_stories)"

text \<open>
  \<open>build_semantic_index\<close>. The result is the exception raised, if any, and the engine and
  the database after the call. The function returns early, with nothing changed, when the
  user has no stories and when the stories have no chunks; on these paths and when an
  exception is raised the connection is closed or dropped without \<open>commit\<close>, so the
  \<open>DELETE\<close> on \<open>story_chunks\<close> is rolled back. \<open>embeddings[i]\<close> raises when the model
  returned fewer rows than texts. The blobs are written before \<open>normalize_L2\<close> runs, so
  the table holds the rows as the model returned them and the index the normalised ones.
\<close>

definition build_semantic_index ::
  "engine \<Rightarrow> database \<Rightarrow> nat \<Rightarrow> error option \<times> engine \<times> database" where
  "build_semantic_index eng db uid =
     (let user_stories = filter (\<lambda>s. user_id s = uid) (stories db)
      in if user_stories = [] then (None, eng, db)
         else
           let chunk_metadata = collect_chunks (chunk_size eng) user_stories;
               all_chunks = map info_chunk_text chunk_metadata
           in if all_chunks = [] then (None, eng, db)
              else
                (case embedding_model eng all_chunks of
                   None \<Rightarrow> (Some EmbeddingError, eng, db)
                 | Some embeddings \<Rightarrow>
                     if length embeddings < length all_chunks then (Some IndexError, eng, db)
                     else
                       let kept = filter
                                    (\<lambda>r. \<not> sql_in (row_story_id r) (map story_id user_stories))
                                    (story_chunks_table db);
                           rows = map (\<lambda>(m, e).
                                    \<lparr>row_story_id = info_story_id m,
                                     row_chunk_text = info_chunk_text m,
                                     row_chunk_index = info_chunk_index m,
                                     row_embedding = e\<rparr>)
                                  (zip chunk_metadata embeddings)
                       in (None,
                           eng\<lparr>index := Some (map normalize_L2 embeddings),
                               story_chunks := chunk_metadata\<rparr>,
                           db\<lparr>story_chunks_table := kept @ rows\<rparr>)))"

record search_result =
  score :: real
  chunk :: string
  result_story_id :: nat

text \<open>
  The loop of \<open>semantic_search\<close> over the pairs of score and label:
  \<^verbatim>\<open>
    for score, idx in zip(scores[0], indices[0]):
        if idx < len(self.story_chunks):
            chunk_info = self.story_chunks[idx]
            results.append({...})
  \<close>
\<close>

fun collect_results :: "chunk_info list \<Rightarrow> (real \<times> int) list \<Rightarrow> error + search_result list" where
  "collect_results chunks [] = Inr []"
| "collect_results chunks ((s, idx) # rest) =
     (if idx < int (length chunks) then
        (case py_getitem chunks idx of
           Inl e \<Rightarrow> Inl e
         | Inr chunk_info \<Rightarrow>
             (case collect_results chunks rest of
                Inl e \<Rightarrow> Inl e
              | Inr results \<Rightarrow>
                  Inr (\<lparr>score = s, chunk = info_chunk_text chunk_info,
                        result_story_id = info_story_id chunk_info\<rparr> # results)))
      else collect_results chunks rest)"

text \<open>
  \<open>semantic_search\<close>. It reads the engine and changes nothing. The query is embedded as
  a batch of one text, and the first row of the answer is used.
\<close>

definition semantic_search :: "engine \<Rightarrow> string \<Rightarrow> nat \<Rightarrow> error + search_result list" where
  "semantic_search eng query top_k =
     (case index eng of
        None \<Rightarrow> Inr []
      | Some xb \<Rightarrow>
          if story_chunks eng = [] then Inr []
          else
            (case embedding_model eng [query] of
               None \<Rightarrow> Inl EmbeddingError
             | Some [] \<Rightarrow> Inl IndexError
             | Some (query_embedding # _) \<Rightarrow>
                 collect_results (story_chunks eng)
                   (faiss_search xb (normalize_L2 query_embedding) top_k)))"

definition answer_not_found :: string where
  "answer_not_found = ''I couldn't find a specific answer to your question.''"

text \<open>\<open>generate_answer\<close>: any exception of the pipeline is caught.\<close>

definition generate_answer :: "engine \<Rightarrow> string \<Rightarrow> string \<Rightarrow> string" where
  "generate_answer eng question context =
     (case qa_pipeline eng question context of
        Some a \<Rightarrow> a
      | None \<Rightarrow> answer_not_found)"

section \<open>The source lists of a conversation as JSON\<close>

text \<open>
  \<open>json.dumps\<close> of Python's standard library on a list of strings, with its default
  settings: \<open>ensure_ascii\<close>, and the separator \<open>", "\<close> between items. Inside a string
  (\<open>py_encode_basestring_ascii\<close>), the backslash and the double quote are escaped, the
  control characters 8, 9, 10, 12, 13 have short escapes, the characters from the space
  to \<open>~\<close> stand for themselves, and every other character becomes \<open>\uXXXX\<close> with four
  lower-case hexadecimal digits when it is below \<open>0x10000\<close>, and otherwise the two
  escapes of its surrogate pair:
  \<^verbatim>\<open>
    n -= 0x10000
    s1 = 0xd800 | ((n >> 10) & 0x3ff)
    s2 = 0xdc00 | (n & 0x3ff)
    return '\\u{0:04x}\\u{1:04x}'.format(s1, s2)
  \<close>
  The shifts and masks are written as division and remainder, and \<open>|\<close> as \<open>+\<close>, its
  operands having no bit in common.
\<close>

definition hex_digit :: "nat \<Rightarrow> nat" where
  "hex_digit d = (if d < 10 then ord CHR ''0'' + d else ord CHR ''a'' + (d - 10))"

definition format_04x :: "nat \<Rightarrow> unicode" where
  "format_04x n =
     [hex_digit (n div 4096 mod 16), hex_digit (n div 256 mod 16),
      hex_digit (n div 16 mod 16), hex_digit (n mod 16)]"

definition escape_ascii :: "nat \<Rightarrow> unicode" where
  "escape_ascii c =
     (if c = ord (CHR 0x5C) then [ord (CHR 0x5C), ord (CHR 0x5C)]
      else if c = ord (CHR 0x22) then [ord (CHR 0x5C), ord (CHR 0x22)]
      else if c = 0x08 then [ord (CHR 0x5C), ord CHR ''b'']
      else if c = 0x0C then [ord (CHR 0x5C), ord CHR ''f'']
      else if c = 0x0A then [ord (CHR 0x5C), ord CHR ''n'']
      else if c = 0x0D then [ord (CHR 0x5C), ord CHR ''r'']
      else if c = 0x09 then [ord (CHR 0x5C), ord CHR ''t'']
      else if ord CHR '' '' \<le> c \<and> c \<le> ord CHR ''~'' then [c]
      else if c < 0x10000 then ord (CHR 0x5C) # ord CHR ''u'' # format_04x c
      else
        ord (CHR 0x5C) # ord CHR ''u'' #
          format_04x (0xD800 + (c - 0x10000) div 1024 mod 1024)
        @ ord (CHR 0x5C) # ord CHR ''u'' #
          format_04x (0xDC00 + (c - 0x10000) mod 1024))"

definition encode_basestring_ascii :: "unicode \<Rightarrow> unicode" where
  "encode_basestring_ascii s =
     ord (CHR 0x22) # concat (map escape_ascii s) @ [ord (CHR 0x22)]"

definition json_dumps :: "unicode list \<Rightarrow> unicode" where
  "json_dumps xs =
     codepoints ''['' @ join (codepoints '', '') (map encode_basestring_ascii xs)
     @ codepoints '']''"

text \<open>
  \<open>json.loads\<close>, as far as the history needs it: the result is \<open>Some\<close> of the list
  when the document is an array of strings, and \<open>None\<close> when the library raises
  \<open>JSONDecodeError\<close> and when the document is another JSON value.

  \<open>scanstring\<close> (\<open>py_scanstring\<close>) reads a string after its opening quote and returns
  the decoded text and the rest of the input: the closing quote ends it, a backslash
  starts an escape, a raw control character is an error, any other character stands for
  itself. After \<open>\uXXXX\<close> with the value of a high surrogate, a following \<open>\uXXXX\<close> with
  the value of a low surrogate is read with it as one character; a following \<open>\u\<close>
  without four hexadecimal digits is an error:
  \<^verbatim>\<open>
    uni = _decode_uXXXX(s, end)
    end += 5
    if 0xd800 <= uni <= 0xdbff and s[end:end + 2] == '\\u':
        uni2 = _decode_uXXXX(s, end + 1)
        if 0xdc00 <= uni2 <= 0xdfff:
            uni = 0x10000 + (((uni - 0xd800) << 10) | (uni2 - 0xdc00))
            end += 6
    char = chr(uni)
  \<close>
\<close>

definition hex_value :: "nat \<Rightarrow> nat option" where
  "hex_value c =
     (if ord CHR ''0'' \<le> c \<and> c \<le> ord CHR ''9'' then Some (c - ord CHR ''0'')
      else if ord CHR ''a'' \<le> c \<and> c \<le> ord CHR ''f'' then Some (c - ord CHR ''a'' + 10)
      else if ord CHR ''A'' \<le> c \<and> c \<le> ord CHR ''F'' then Some (c - ord CHR ''A'' + 10)
      else None)"

definition decode_uXXXX :: "unicode \<Rightarrow> nat option" where
  "decode_uXXXX ds =
     (case map hex_value ds of
        [Some a, Some b, Some c, Some d] \<Rightarrow> Some (((a * 16 + b) * 16 + c) * 16 + d)
      | _ \<Rightarrow> None)"

definition backslash :: "nat \<Rightarrow> nat option" where
  "backslash esc =
     (if esc = ord (CHR 0x22) then Some (ord (CHR 0x22))
      else if esc = ord (CHR 0x5C) then Some (ord (CHR 0x5C))
      else if esc = ord CHR ''/'' then Some (ord CHR ''/'')
      else if esc = ord CHR ''b'' then Some 0x08
      else if esc = ord CHR ''f'' then Some 0x0C
      else if esc = ord CHR ''n'' then Some 0x0A
      else if esc = ord CHR ''r'' then Some 0x0D
      else if esc = ord CHR ''t'' then Some 0x09
      else None)"

text \<open>A character put in front of the text that the rest of the scan gives.\<close>

definition scanned :: "nat \<Rightarrow> (unicode \<times> unicode) option \<Rightarrow> (unicode \<times> unicode) option" where
  "scanned ch rest = map_option (\<lambda>(s, r). (ch # s, r)) rest"

fun scanstring :: "unicode \<Rightarrow> (unicode \<times> unicode) option" where
  "scanstring [] = None"
| "scanstring (c # cs) =
     (if c = ord (CHR 0x22) then Some ([], cs)
      else if c = ord (CHR 0x5C) then
        (case cs of
           [] \<Rightarrow> None
         | esc # rest \<Rightarrow>
             if esc = ord CHR ''u'' then
               (case decode_uXXXX (take 4 rest) of
                  None \<Rightarrow> None
                | Some uni \<Rightarrow>
                    if 0xD800 \<le> uni \<and> uni \<le> 0xDBFF
                       \<and> take 2 (drop 4 rest) = [ord (CHR 0x5C), ord CHR ''u'']
                    then
                      (case decode_uXXXX (take 4 (drop 6 rest)) of
                         None \<Rightarrow> None
                       | Some uni2 \<Rightarrow>
                           if 0xDC00 \<le> uni2 \<and> uni2 \<le> 0xDFFF
                           then scanned (0x10000 + ((uni - 0xD800) * 1024 + (uni2 - 0xDC00)))
                                  (scanstring (drop 10 rest))
                           else scanned uni (scanstring (drop 4 rest)))
                    else scanned uni (scanstring (drop 4 rest)))
             else
               (case backslash esc of
                  None \<Rightarrow> None
                | Some ch \<Rightarrow> scanned ch (scanstring rest)))
      else if c < 0x20 then None
      else scanned c (scanstring cs))"

definition json_ws :: "nat \<Rightarrow> bool" where
  "json_ws c \<longleftrightarrow> c = ord CHR '' '' \<or> c = 0x09 \<or> c = 0x0A \<or> c = 0x0D"

text \<open>
  The items of an array, from the first character of an item to the closing bracket:
  each item is a string, followed, after optional whitespace, by a comma or the bracket.
\<close>

function JSONArray :: "unicode \<Rightarrow> (unicode list \<times> unicode) option" where
  "JSONArray [] = None"
| "JSONArray (c # cs) =
     (if c \<noteq> ord (CHR 0x22) then None
      else
        (case scanstring cs of
           None \<Rightarrow> None
         | Some (v, r) \<Rightarrow>
             (case dropWhile json_ws r of
                [] \<Rightarrow> None
              | d # r' \<Rightarrow>
                  if d = ord CHR '']'' then Some ([v], r')
                  else if d = ord CHR '','' then
                    map_option (\<lambda>(vs, e). (v # vs, e)) (JSONArray (dropWhile json_ws r'))
                  else None)))"
  by pat_completeness auto
termination
proof (relation "measure length")
  show "wf (measure (length :: unicode \<Rightarrow> nat))"
    by simp
next
  fix c :: nat and cs x2 v r and d r'
  assume scan: "scanstring cs = Some x2" "(v, r) = x2"
    and rest: "dropWhile json_ws r = d # r'"
  have shorter: "scanstring s = Some (t, u) \<Longrightarrow> length u < length s" for s t u
  proof (induction s arbitrary: t u rule: scanstring.induct)
    case 1
    then show ?case by simp
  next
    case (2 c cs)
    then show ?case
      by (fastforce simp: scanned_def split: if_splits list.splits option.splits)
  qed
  from scan have "length r < length cs"
    using shorter by metis
  moreover have "length (dropWhile json_ws r') \<le> length r'"
    by (rule length_dropWhile_le)
  moreover have "length (d # r') \<le> length r"
    using rest length_dropWhile_le [of json_ws r] by simp
  ultimately show "(dropWhile json_ws r', c # cs) \<in> measure length"
    by simp
qed

definition json_loads :: "unicode \<Rightarrow> unicode list option" where
  "json_loads s =
     (case dropWhile json_ws s of
        [] \<Rightarrow> None
      | c # cs \<Rightarrow>
          if c \<noteq> ord CHR ''['' then None
          else
            (case dropWhile json_ws cs of
               [] \<Rightarrow> None
             | d # ds \<Rightarrow>
                 (case (if d = ord CHR '']'' then Some ([], ds) else JSONArray (d # ds)) of
                    None \<Rightarrow> None
                  | Some (vs, end) \<Rightarrow>
                      if dropWhile json_ws end = [] then Some vs else None)))"

section \<open>Conversations and questions\<close>

text \<open>\<open>save_conversation\<close>: one row appended to \<open>conversation_history\<close>.\<close>

definition save_conversation ::
  "database \<Rightarrow> nat \<Rightarrow> string \<Rightarrow> string \<Rightarrow> unicode list \<Rightarrow> database" where
  "save_conversation db uid question ans srcs =
     db\<lparr>conversation_history := conversation_history db @
          [\<lparr>conv_user_id = uid, conv_question = question, conv_answer = ans,
            conv_sources = Some (json_dumps srcs), conv_created_at = now db\<rparr>]\<rparr>"

text \<open>
  The dictionary that \<open>process_question\<close> returns. Two of its three \<open>return\<close>
  statements build it without the key \<open>'confidence'\<close>: \<open>None\<close> is the absent key.
\<close>

record result =
  answer :: string
  sources :: "string list"
  confidence :: "real option"

definition answer_no_information :: string where
  "answer_no_information =
     ''I couldn't find any relevant information in your uploaded stories.''"

definition answer_error :: string where
  "answer_error = ''I encountered an error processing your question. Please try again.''"

text \<open>The context of a question: \<open>"\n\n".join\<close> of the chunks of the first three results.\<close>

definition build_context :: "search_result list \<Rightarrow> string" where
  "build_context search_results =
     join [CHR 0x0A, CHR 0x0A] (map chunk (take 3 search_results))"

text \<open>
  \<open>max([r['score'] for r in search_results]) if search_results else 0\<close>.
\<close>

definition max_score :: "search_result list \<Rightarrow> real" where
  "max_score search_results =
     (case map score search_results of
        [] \<Rightarrow> 0
      | x # xs \<Rightarrow> fold max xs x)"

text \<open>
  The titles for the sources: \<open>SELECT id, title FROM stories WHERE id IN (...)\<close> over
  the story ids of the first three results, one row per story, in table order.
\<close>

definition source_titles :: "database \<Rightarrow> search_result list \<Rightarrow> string list" where
  "source_titles db search_results =
     map title
       (filter (\<lambda>s. sql_in (story_id s) (map result_story_id (take 3 search_results)))
          (stories db))"

text \<open>
  The body of the \<open>try\<close> of \<open>process_question\<close>: the exception or the dictionary, and
  the state when it ends. The index is built only when the engine has none, whoever the
  user is; the search does not take the user. The titles go to \<open>save_conversation\<close>
  as lists of code points.
\<close>

definition process_question_try ::
  "engine \<Rightarrow> database \<Rightarrow> nat \<Rightarrow> string \<Rightarrow> (error + result) \<times> engine \<times> database" where
  "process_question_try eng db uid question =
     (case (if index eng = None then build_semantic_index eng db uid else (None, eng, db)) of
        (Some e, eng1, db1) \<Rightarrow> (Inl e, eng1, db1)
      | (None, eng1, db1) \<Rightarrow>
          (case semantic_search eng1 question 5 of
             Inl e \<Rightarrow> (Inl e, eng1, db1)
           | Inr search_results \<Rightarrow>
               if search_results = [] then
                 (Inr \<lparr>answer = answer_no_information, sources = [], confidence = None\<rparr>,
                  eng1, db1)
               else
                 let context = build_context search_results;
                     ans = generate_answer eng1 question context;
                     srcs = source_titles db1 search_results
                 in (Inr \<lparr>answer = ans, sources = srcs,
                          confidence = Some (max_score search_results)\<rparr>,
                     eng1, save_conversation db1 uid question ans (map codepoints srcs))))"

text \<open>\<open>process_question\<close>: the \<open>except Exception\<close> turns any exception into a reply.\<close>

definition process_question ::
  "engine \<Rightarrow> database \<Rightarrow> nat \<Rightarrow> string \<Rightarrow> result \<times> engine \<times> database" where
  "process_question eng db uid question =
     (case process_question_try eng db uid question of
        (Inl e, eng1, db1) \<Rightarrow>
          (\<lparr>answer = answer_error, sources = [], confidence = None\<rparr>, eng1, db1)
      | (Inr r, eng1, db1) \<Rightarrow> (r, eng1, db1))"

section \<open>The routes of \<open>app_enhanced.py\<close>\<close>

text \<open>
  The routes after authentication, with the user id of the session as an argument. The
  reply of a route is its JSON body or an error status; redirects and flashed messages are
  left out.
\<close>

datatype response = Json result | HttpError nat string

definition answer_no_stories :: string where
  "answer_no_stories =
     ''You have no uploaded stories to ask questions about. Please upload some stories first.''"

text \<open>
  \<open>chat_api\<close>, from the question of the request body on. An exception of
  \<open>build_semantic_index\<close> reaches the \<open>except\<close> of the route and becomes status 500.
\<close>

definition chat_api ::
  "engine \<Rightarrow> database \<Rightarrow> nat \<Rightarrow> string \<Rightarrow> response \<times> engine \<times> database" where
  "chat_api eng db uid question_raw =
     (let question = strip question_raw
      in if question = [] then (HttpError 400 ''Question cannot be empty'', eng, db)
         else if length (filter (\<lambda>s. user_id s = uid) (stories db)) = 0 then
           (Json \<lparr>answer = answer_no_stories, sources = [], confidence = Some 0\<rparr>, eng, db)
         else
           (case (if index eng = None then build_semantic_index eng db uid
                  else (None, eng, db)) of
              (Some e, eng1, db1) \<Rightarrow>
                (HttpError 500 ''An error occurred while processing your question'', eng1, db1)
            | (None, eng1, db1) \<Rightarrow>
                (case process_question eng1 db1 uid question of
                   (r, eng2, db2) \<Rightarrow> (Json r, eng2, db2))))"

text \<open>
  \<open>upload_story\<close> on a POST: the story is inserted and committed, then the index is
  rebuilt for the user. The first component is the exception that leaves the route.
\<close>

definition upload_story ::
  "engine \<Rightarrow> database \<Rightarrow> nat \<Rightarrow> string \<Rightarrow> string \<Rightarrow> error option \<times> engine \<times> database" where
  "upload_story eng db uid title_raw content_raw =
     (let t = strip title_raw; c = strip content_raw
      in if t = [] \<or> c = [] then (None, eng, db)
         else
           build_semantic_index eng
             (db\<lparr>stories := stories db @
                   [\<lparr>story_id = Suc (story_seq db), user_id = uid, title = t, content = c\<rparr>],
                 story_seq := Suc (story_seq db)\<rparr>)
             uid)"

text \<open>
  \<open>delete_story\<close>: a story of another user is not deleted; otherwise the story is
  deleted and committed, then the index is rebuilt for the user.
\<close>

definition delete_story ::
  "engine \<Rightarrow> database \<Rightarrow> nat \<Rightarrow> nat \<Rightarrow> error option \<times> engine \<times> database" where
  "delete_story eng db uid sid =
     (if filter (\<lambda>s. story_id s = sid \<and> user_id s = uid) (stories db) = [] then (None, eng, db)
      else
        build_semantic_index eng
          (db\<lparr>stories := filter (\<lambda>s. story_id s \<noteq> sid) (stories db)\<rparr>)
          uid)"

text \<open>An entry of the history as \<open>get_chat_history\<close> returns it.\<close>

record history_entry =
  entry_question :: string
  entry_answer :: string
  entry_sources :: "unicode list"
  entry_timestamp :: nat

text \<open>
  One row of the history as an entry:
  \<open>json.loads(h[2]) if h[2] else []\<close> for the sources, where NULL and the empty text are
  false. \<open>None\<close> is \<open>json.loads\<close> not giving a list of strings.
\<close>

definition history_row :: "conversation \<Rightarrow> history_entry option" where
  "history_row h =
     map_option
       (\<lambda>srcs. \<lparr>entry_question = conv_question h, entry_answer = conv_answer h,
                entry_sources = srcs, entry_timestamp = conv_created_at h\<rparr>)
       (case conv_sources h of
          None \<Rightarrow> Some []
        | Some text \<Rightarrow> if text \<noteq> [] then json_loads text else Some [])"

text \<open>
  \<open>get_chat_history\<close>: the ten most recent rows of the user, newest first; rows of the
  same second are taken in table order. One row that does not decode fails the request.
\<close>

definition get_chat_history :: "database \<Rightarrow> nat \<Rightarrow> history_entry list option" where
  "get_chat_history db uid =
     (let rows = take 10
                   (sort_key (\<lambda>h. - int (conv_created_at h))
                      (filter (\<lambda>h. conv_user_id h = uid) (conversation_history db)));
          entries = map history_row rows
      in if None \<in> set entries then None else Some (map the entries))"

section \<open>Vocabulary of the properties\<close>

text \<open>The characters of a text that are not whitespace.\<close>

definition non_whitespace :: "string \<Rightarrow> string" where
  "non_whitespace s = filter (\<lambda>c. \<not> is_space c) s"

text \<open>The characters of a text that are neither whitespace nor sentence terminals.\<close>

definition sentence_content :: "string \<Rightarrow> string" where
  "sentence_content s = filter (\<lambda>c. \<not> is_space c \<and> \<not> is_terminal c) s"

text \<open>
  The code points of well-formed text, the Unicode scalar values: every code point but
  the surrogates. A text that the database holds has no other, since a surrogate has no
  UTF-8 encoding; the titles of the stories are such texts.
\<close>

definition scalar_value :: "nat \<Rightarrow> bool" where
  "scalar_value c \<longleftrightarrow> c < 0x110000 \<and> (c < 0xD800 \<or> 0xDFFF < c)"

text \<open>
  Deterministic stand-ins for the two models, for running the engine on concrete
  stories: every text has the embedding \<open>[1]\<close>, and every question the same answer.
\<close>

definition stub_embed :: "string list \<Rightarrow> vec list option" where
  "stub_embed texts = Some (map (\<lambda>t. [1]) texts)"

definition stub_qa :: "string \<Rightarrow> string \<Rightarrow> string option" where
  "stub_qa question context = Some ''stub answer''"

definition failing_qa :: "string \<Rightarrow> string \<Rightarrow> string option" where
  "failing_qa question context = None"

text \<open>An embedding model that fails on every batch of more than one text.\<close>

definition batch_failing_embed :: "string list \<Rightarrow> vec list option" where
  "batch_failing_embed texts = (if length texts \<le> 1 then stub_embed texts else None)"

definition empty_db :: database where
  "empty_db =
     \<lparr>stories = [], story_seq = 0, story_chunks_table = [], conversation_history = [],
      now = 0\<rparr>"

text \<open>A fresh engine and an empty database, after user 1 has uploaded one story.\<close>

definition one_story :: "error option \<times> engine \<times> database" where
  "one_story = upload_story (init_engine stub_embed stub_qa) empty_db 1 ''Doc 1'' ''The cat sat.''"

text \<open>Then user 2 uploads a story.\<close>

definition two_tenants :: "error option \<times> engine \<times> database" where
  "two_tenants =
     (case one_story of (_, eng, db) \<Rightarrow> upload_story eng db 2 ''Doc 2'' ''The dog ran fast.'')"

text \<open>Or user 1 deletes the story, which has the id 1.\<close>

definition story_deleted :: "error option \<times> engine \<times> database" where
  "story_deleted = (case one_story of (_, eng, db) \<Rightarrow> delete_story eng db 1 1)"

text \<open>
  Or user 1 uploads a second story with no sentence in it, and then deletes the
  first one.
\<close>

definition story_replaced :: "error option \<times> engine \<times> database" where
  "story_replaced =
     (case one_story of (_, eng, db) \<Rightarrow>
        (case upload_story eng db 1 ''?'' ''!'' of (_, eng1, db1) \<Rightarrow>
           delete_story eng1 db1 1 1))"

text \<open>A fresh engine and a database whose only story has no sentence in it.\<close>

definition no_sentences :: "error option \<times> engine \<times> database" where
  "no_sentences = upload_story (init_engine stub_embed stub_qa) empty_db 1 ''?'' ''!''"

text \<open>
  The engine of \<open>one_story\<close> with an embedding model that now fails on batches, and the
  database with a second story of user 1 inserted: the state in which \<open>upload_story\<close>
  calls the rebuild.
\<close>

definition failing_engine :: engine where
  "failing_engine = (fst (snd one_story))\<lparr>embedding_model := batch_failing_embed\<rparr>"

definition second_story_db :: database where
  "second_story_db =
     (snd (snd one_story))
       \<lparr>stories := stories (snd (snd one_story)) @
          [\<lparr>story_id = 2, user_id = 1, title = ''Doc 2'', content = ''The dog ran fast.''\<rparr>],
        story_seq := 2\<rparr>"

text \<open>The engine of \<open>one_story\<close> with a question-answering model that fails.\<close>

definition mute_engine :: engine where
  "mute_engine = (fst (snd one_story))\<lparr>qa_pipeline := failing_qa\<rparr>"

text \<open>The one chunk of the story of \<open>one_story\<close>, as a search result and as padding.\<close>

definition cat_chunk :: string where
  "cat_chunk = ''Doc 1'' @ [CHR 0x0A, CHR 0x0A] @ ''The cat sat.''"

definition cat_result :: "real \<Rightarrow> search_result" where
  "cat_result s = \<lparr>score = s, chunk = cat_chunk, result_story_id = 1\<rparr>"

text \<open>The database of \<open>one_story\<close> after one conversation of user 1 has been saved.\<close>

definition asked_db :: database where
  "asked_db =
     save_conversation (snd (snd one_story)) 1 ''What did the cat do?'' ''stub answer''
       [codepoints ''Doc 1'']"

section \<open>The chunker keeps the content of the sentences\<close>

lemma sentence_content_Nil [simp]: "sentence_content [] = []"
  by (simp add: sentence_content_def)

lemma sentence_content_append [simp]:
  "sentence_content (a @ b) = sentence_content a @ sentence_content b"
  by (simp add: sentence_content_def)

lemma sentence_content_dropWhile_space:
  "sentence_content (dropWhile is_space s) = sentence_content s"
  by (induction s) (auto simp: sentence_content_def)

lemma sentence_content_dropWhile_terminal:
  "sentence_content (dropWhile is_terminal s) = sentence_content s"
  by (induction s) (auto simp: sentence_content_def)

lemma sentence_content_rev: "sentence_content (rev s) = rev (sentence_content s)"
  by (simp add: sentence_content_def rev_filter)

lemma sentence_content_strip: "sentence_content (strip s) = sentence_content s"
proof -
  have "sentence_content (strip s)
      = rev (sentence_content (dropWhile is_space (rev (dropWhile is_space s))))"
    by (simp add: strip_def sentence_content_rev)
  also have "\<dots> = rev (sentence_content (rev (dropWhile is_space s)))"
    by (simp only: sentence_content_dropWhile_space)
  also have "\<dots> = sentence_content (dropWhile is_space s)"
    by (simp add: sentence_content_rev)
  finally show ?thesis
    by (simp add: sentence_content_dropWhile_space)
qed

lemma sentence_content_separator: "sentence_content ''. '' = []"
  by (simp add: sentence_content_def is_terminal_def is_space_def)

lemma sentence_content_re_split:
  "sentence_content (concat (re_split s)) = sentence_content s"
proof (induction s rule: re_split.induct)
  case 1
  show ?case by simp
next
  case (2 c cs)
  show ?case
  proof (cases "is_terminal c")
    case True
    with 2 show ?thesis
      by (simp add: sentence_content_dropWhile_terminal) (simp add: sentence_content_def)
  next
    case False
    with 2 show ?thesis
      by (auto simp: sentence_content_def split: list.splits)
  qed
qed

lemma sentence_content_chunk_loop:
  "chunk_loop sz ss chunks cur = (chunks', cur') \<Longrightarrow>
   sentence_content (concat chunks') @ sentence_content cur' =
   sentence_content (concat chunks) @ sentence_content cur @ sentence_content (concat ss)"
proof (induction ss arbitrary: chunks cur)
  case Nil
  then show ?case by simp
next
  case (Cons s ss)
  show ?case
  proof (cases "strip s = []")
    case True
    then have "sentence_content s = []"
      using sentence_content_strip [of s] by simp
    with True Cons show ?thesis by simp
  next
    case False
    note nonempty = this
    show ?thesis
    proof (cases "length cur + length (strip s) < sz")
      case True
      with nonempty Cons.prems
      have "chunk_loop sz ss chunks (cur @ strip s @ ''. '') = (chunks', cur')"
        by (simp add: Let_def)
      from Cons.IH [OF this] show ?thesis
        by (simp add: sentence_content_strip sentence_content_separator)
    next
      case False
      with nonempty Cons.prems
      have "chunk_loop sz ss (if cur \<noteq> [] then chunks @ [strip cur] else chunks)
              (strip s @ ''. '') = (chunks', cur')"
        by (simp add: Let_def)
      from Cons.IH [OF this] show ?thesis
        by (cases "cur = []")
           (simp_all add: sentence_content_strip sentence_content_separator)
    qed
  qed
qed

text \<open>
  C6, as amended. For every text and every chunk size, the chunks together hold the
  characters of the text that are neither whitespace nor sentence terminals, all of them
  and in their order: removing whitespace and the characters \<open>.\<close>, \<open>!\<close>, \<open>?\<close> from the
  concatenation of the chunks gives the text with the same characters removed. A sentence
  longer than the chunk size is no exception.
\<close>

theorem chunk_text_sentence_content:
  "sentence_content (concat (chunk_text sz text)) = sentence_content text"
proof -
  obtain chunks cur where loop: "chunk_loop sz (re_split text) [] [] = (chunks, cur)"
    by (cases "chunk_loop sz (re_split text) [] []")
  from sentence_content_chunk_loop [OF loop]
  have "sentence_content (concat chunks) @ sentence_content cur = sentence_content text"
    by (simp add: sentence_content_re_split)
  moreover have "sentence_content (concat (chunk_text sz text))
      = sentence_content (concat chunks) @ sentence_content cur"
    using loop sentence_content_strip [of cur]
    by (cases "cur = []") (simp_all add: chunk_text_def)
  ultimately show ?thesis by simp
qed

text \<open>
  C6, as stated, fails: the chunker drops the sentence terminals of the text and ends
  every sentence with a full stop. The text \<open>Hi!\<close> has the single chunk \<open>Hi.\<close>, whose
  characters other than whitespace are not those of the text; the exclamation mark is in
  no chunk.
\<close>

theorem chunk_text_loses_punctuation:
  "non_whitespace (concat (chunk_text 512 ''Hi!'')) \<noteq> non_whitespace ''Hi!''
   \<and> CHR ''!'' \<notin> set (concat (chunk_text 512 ''Hi!''))"
  by (simp add: chunk_text_def strip_def is_space_def is_terminal_def non_whitespace_def)

section \<open>The context of a question\<close>

lemma length_join:
  "length (join sep xs) = sum_list (map length xs) + length sep * (length xs - 1)"
  by (induction sep xs rule: join.induct) simp_all

text \<open>
  C7, as amended. The context is made of the chunk texts of the first three results, in
  ranked order, each in full, with two newlines between them; fewer results give fewer
  texts. Its length is the sum of the lengths of these texts and two for each separator:
  no maximum is applied and no text is cut.
\<close>

theorem build_context_full_texts:
  "build_context (a # b # c # rest) =
     chunk a @ [CHR 0x0A, CHR 0x0A] @ chunk b @ [CHR 0x0A, CHR 0x0A] @ chunk c
   \<and> build_context [a, b] = chunk a @ [CHR 0x0A, CHR 0x0A] @ chunk b
   \<and> build_context [a] = chunk a
   \<and> build_context [] = []
   \<and> length (build_context rs) =
       sum_list (map (\<lambda>r. length (chunk r)) (take 3 rs)) + 2 * (min 3 (length rs) - 1)"
  by (simp add: build_context_def length_join comp_def min_def)

text \<open>
  C7, as stated, fails: no bound holds for the length of the context. For any bound, one
  result whose chunk is longer gives a longer context.
\<close>

theorem build_context_unbounded:
  "\<not> (\<exists>bound. \<forall>rs. length (build_context rs) \<le> bound)"
proof
  assume "\<exists>bound. \<forall>rs. length (build_context rs) \<le> bound"
  then obtain bound where b: "\<forall>rs. length (build_context rs) \<le> bound" ..
  have "length (build_context
          [\<lparr>score = 1, chunk = replicate (Suc bound) (CHR ''a''), result_story_id = 1\<rparr>])
        = Suc bound"
    by (simp add: build_context_def)
  with b show False
    by (metis Suc_n_not_le_n)
qed

section \<open>The engine on the example stories\<close>

text \<open>
  The states of the examples, computed from the definitions. After the upload of one
  story the index has one row; a search in such an index with \<open>top_k = 5\<close> gives the
  chunk once with its score and four more times for the four labels \<open>-1\<close>.
\<close>

lemma replicate_numeral: "replicate (numeral k) x = x # replicate (pred_numeral k) x"
  by (simp add: numeral_eq_Suc)

lemmas chunker_defs =
  collect_chunks_def story_metadata_def full_text_def chunk_text_def strip_def is_space_def
  is_terminal_def

lemmas search_defs =
  semantic_search_def faiss_search_def inner_product_def normalize_L2_def py_getitem_def
  replicate_numeral

lemma one_story_eq:
  "one_story =
     (None,
      \<lparr>embedding_model = stub_embed, qa_pipeline = stub_qa, index = Some [[1]],
        story_chunks =
          [\<lparr>info_story_id = 1, info_chunk_index = 0, info_chunk_text = cat_chunk\<rparr>],
        chunk_size = 512, overlap = 50\<rparr>,
      \<lparr>stories = [\<lparr>story_id = 1, user_id = 1, title = ''Doc 1'', content = ''The cat sat.''\<rparr>],
        story_seq = 1,
        story_chunks_table =
          [\<lparr>row_story_id = 1, row_chunk_text = cat_chunk, row_chunk_index = 0,
            row_embedding = [1]\<rparr>],
        conversation_history = [], now = 0\<rparr>)"
  by (simp add: one_story_def upload_story_def init_engine_def empty_db_def
      build_semantic_index_def chunker_defs Let_def stub_embed_def normalize_L2_def cat_chunk_def)

lemma two_tenants_eq:
  "two_tenants =
     (None,
      \<lparr>embedding_model = stub_embed, qa_pipeline = stub_qa, index = Some [[1]],
        story_chunks =
          [\<lparr>info_story_id = 2, info_chunk_index = 0,
            info_chunk_text = ''Doc 2'' @ [CHR 0x0A, CHR 0x0A] @ ''The dog ran fast.''\<rparr>],
        chunk_size = 512, overlap = 50\<rparr>,
      \<lparr>stories =
         [\<lparr>story_id = 1, user_id = 1, title = ''Doc 1'', content = ''The cat sat.''\<rparr>,
          \<lparr>story_id = 2, user_id = 2, title = ''Doc 2'', content = ''The dog ran fast.''\<rparr>],
        story_seq = 2,
        story_chunks_table =
          [\<lparr>row_story_id = 1, row_chunk_text = cat_chunk, row_chunk_index = 0,
            row_embedding = [1]\<rparr>,
           \<lparr>row_story_id = 2,
            row_chunk_text = ''Doc 2'' @ [CHR 0x0A, CHR 0x0A] @ ''The dog ran fast.'',
            row_chunk_index = 0, row_embedding = [1]\<rparr>],
        conversation_history = [], now = 0\<rparr>)"
  by (simp add: two_tenants_def one_story_eq upload_story_def
      build_semantic_index_def chunker_defs Let_def stub_embed_def normalize_L2_def)

lemma story_deleted_eq:
  "story_deleted =
     (None,
      \<lparr>embedding_model = stub_embed, qa_pipeline = stub_qa, index = Some [[1]],
        story_chunks =
          [\<lparr>info_story_id = 1, info_chunk_index = 0, info_chunk_text = cat_chunk\<rparr>],
        chunk_size = 512, overlap = 50\<rparr>,
      \<lparr>stories = [], story_seq = 1,
        story_chunks_table =
          [\<lparr>row_story_id = 1, row_chunk_text = cat_chunk, row_chunk_index = 0,
            row_embedding = [1]\<rparr>],
        conversation_history = [], now = 0\<rparr>)"
  by (simp add: story_deleted_def one_story_eq delete_story_def build_semantic_index_def Let_def)

lemma story_replaced_eq:
  "story_replaced =
     (None,
      \<lparr>embedding_model = stub_embed, qa_pipeline = stub_qa, index = Some [[1]],
        story_chunks =
          [\<lparr>info_story_id = 1, info_chunk_index = 0, info_chunk_text = cat_chunk\<rparr>],
        chunk_size = 512, overlap = 50\<rparr>,
      \<lparr>stories = [\<lparr>story_id = 2, user_id = 1, title = ''?'', content = ''!''\<rparr>],
        story_seq = 2,
        story_chunks_table =
          [\<lparr>row_story_id = 1, row_chunk_text = cat_chunk, row_chunk_index = 0,
            row_embedding = [1]\<rparr>],
        conversation_history = [], now = 0\<rparr>)"
  by (simp add: story_replaced_def one_story_eq upload_story_def delete_story_def
      build_semantic_index_def chunker_defs Let_def stub_embed_def normalize_L2_def cat_chunk_def
     )

lemma no_sentences_eq:
  "no_sentences =
     (None, init_engine stub_embed stub_qa,
      empty_db\<lparr>stories := [\<lparr>story_id = 1, user_id = 1, title = ''?'', content = ''!''\<rparr>],
        story_seq := 1\<rparr>)"
  by (simp add: no_sentences_def upload_story_def empty_db_def
      build_semantic_index_def chunker_defs Let_def init_engine_def)

lemma search_one_chunk:
  assumes "index eng = Some [[1]]"
    and "story_chunks eng = [\<lparr>info_story_id = sid, info_chunk_index = 0, info_chunk_text = text\<rparr>]"
    and "embedding_model eng = stub_embed"
  shows "semantic_search eng query 5 =
     Inr (\<lparr>score = 1, chunk = text, result_story_id = sid\<rparr>
          # replicate 4 \<lparr>score = - FLT_MAX, chunk = text, result_story_id = sid\<rparr>)"
  using assms by (simp add: search_defs stub_embed_def)

lemma rebuild_one_story:
  "build_semantic_index (init_engine stub_embed stub_qa) (snd (snd one_story)) 1
     = (None, fst (snd one_story), snd (snd one_story))"
  by (simp add: one_story_eq init_engine_def build_semantic_index_def chunker_defs Let_def
      stub_embed_def normalize_L2_def cat_chunk_def)

lemma chunks_one_story:
  "collect_chunks 512 (filter (\<lambda>s. user_id s = 1) (stories (snd (snd one_story))))
     = [\<lparr>info_story_id = 1, info_chunk_index = 0, info_chunk_text = cat_chunk\<rparr>]"
  by (simp add: one_story_eq chunker_defs cat_chunk_def)

lemma second_story_db_eq:
  "second_story_db =
     \<lparr>stories =
        [\<lparr>story_id = 1, user_id = 1, title = ''Doc 1'', content = ''The cat sat.''\<rparr>,
         \<lparr>story_id = 2, user_id = 1, title = ''Doc 2'', content = ''The dog ran fast.''\<rparr>],
      story_seq = 2,
      story_chunks_table =
        [\<lparr>row_story_id = 1, row_chunk_text = cat_chunk, row_chunk_index = 0,
          row_embedding = [1]\<rparr>],
      conversation_history = [], now = 0\<rparr>"
  by (simp add: second_story_db_def one_story_eq)

lemma failing_engine_eq:
  "failing_engine =
     \<lparr>embedding_model = batch_failing_embed, qa_pipeline = stub_qa, index = Some [[1]],
      story_chunks =
        [\<lparr>info_story_id = 1, info_chunk_index = 0, info_chunk_text = cat_chunk\<rparr>],
      chunk_size = 512, overlap = 50\<rparr>"
  by (simp add: failing_engine_def one_story_eq)

lemma mute_engine_eq:
  "mute_engine =
     \<lparr>embedding_model = stub_embed, qa_pipeline = failing_qa, index = Some [[1]],
      story_chunks =
        [\<lparr>info_story_id = 1, info_chunk_index = 0, info_chunk_text = cat_chunk\<rparr>],
      chunk_size = 512, overlap = 50\<rparr>"
  by (simp add: mute_engine_def one_story_eq)

section \<open>The number of results of a search\<close>

text \<open>
  C5, at an input where the code departs from it. The claim: when \<open>k\<close> exceeds the
  number of chunks in the index, the search returns each chunk once and no more results
  than there are chunks. The code: with one chunk in the index and \<open>top_k = 5\<close> the
  search returns five results, all of them the one chunk. The test
  \<open>idx < len(self.story_chunks)\<close> lets the label \<open>-1\<close> of a missing row pass, and
  \<open>self.story_chunks[-1]\<close> is the last chunk.
\<close>

theorem search_pads_to_top_k:
  "length (story_chunks (fst (snd one_story))) = 1
   \<and> semantic_search (fst (snd one_story)) ''What did the cat do?'' 5 =
       Inr [cat_result 1, cat_result (- FLT_MAX), cat_result (- FLT_MAX),
            cat_result (- FLT_MAX), cat_result (- FLT_MAX)]"
  by (simp add: one_story_eq search_one_chunk cat_result_def replicate_numeral)

section \<open>The index after a deletion\<close>

text \<open>
  C3, at an input where the code departs from it. The claim: for a user with no stories
  the rebuild empties the index, and the next search returns nothing. The code: after
  user 1 has deleted the only story, the rebuild returns at \<open>if not stories\<close> with the
  engine as it was, and the search still returns the chunk of the deleted story.
\<close>

theorem deleted_story_still_found:
  "stories (snd (snd story_deleted)) = []
   \<and> build_semantic_index (fst (snd story_deleted)) (snd (snd story_deleted)) 1
       = (None, fst (snd story_deleted), snd (snd story_deleted))
   \<and> semantic_search (fst (snd story_deleted)) ''What did the cat do?'' 5 =
       Inr [cat_result 1, cat_result (- FLT_MAX), cat_result (- FLT_MAX),
            cat_result (- FLT_MAX), cat_result (- FLT_MAX)]"
  by (simp add: story_deleted_eq search_one_chunk cat_result_def replicate_numeral
      build_semantic_index_def)

text \<open>
  C2, at an input where the code departs from it. The claim: after a deletion no question
  of the user is answered from an index that still holds the deleted story. The code:
  user 1 has a story without sentences and deletes the other story, of id 1; the rebuild
  that \<open>delete_story\<close> calls returns at \<open>if not all_chunks\<close> and leaves the index with
  the chunk of story 1. The question is then answered from that chunk: the reply has a
  confidence, which only a search with results gives, and no source, since the story of
  the chunk is gone.
\<close>

theorem question_answered_from_deleted_story:
  "map story_id (stories (snd (snd story_replaced))) = [2]
   \<and> map info_story_id (story_chunks (fst (snd story_replaced))) = [1]
   \<and> fst (chat_api (fst (snd story_replaced)) (snd (snd story_replaced)) 1
           ''What did the cat do?'')
       = Json \<lparr>answer = ''stub answer'', sources = [], confidence = Some 1\<rparr>"
  by (simp add: story_replaced_eq chat_api_def process_question_def process_question_try_def
      search_one_chunk strip_def is_space_def generate_answer_def stub_qa_def source_titles_def
      max_score_def FLT_MAX_def replicate_numeral Let_def)

section \<open>The confidence of a reply\<close>

text \<open>
  C4, at an input where the code departs from it. The claim: every reply has a
  confidence, and it is 0 when the user has no chunks. The code: for a user whose only
  story has no sentences, and so no chunks, \<open>process_question\<close> returns the dictionary
  of its first \<open>return\<close>, which has no key \<open>'confidence'\<close>, and \<open>chat_api\<close> sends it
  as it is.
\<close>

theorem no_chunks_no_confidence:
  "collect_chunks 512 (stories (snd (snd no_sentences))) = []
   \<and> fst (chat_api (fst (snd no_sentences)) (snd (snd no_sentences)) 1 ''What did the cat do?'')
       = Json \<lparr>answer = answer_no_information, sources = [], confidence = None\<rparr>"
  by (simp add: no_sentences_eq chat_api_def process_question_def process_question_try_def
      semantic_search_def build_semantic_index_def chunker_defs init_engine_def empty_db_def
      Let_def)

section \<open>Whose stories a search returns\<close>

lemma py_getitem_in_set: "py_getitem xs i = Inr x \<Longrightarrow> x \<in> set xs"
  by (auto simp: py_getitem_def split: if_splits)

lemma collect_results_from_chunks:
  "collect_results chunks pairs = Inr rs \<Longrightarrow> r \<in> set rs \<Longrightarrow>
   \<exists>m\<in>set chunks. chunk r = info_chunk_text m \<and> result_story_id r = info_story_id m"
proof (induction pairs arbitrary: rs)
  case Nil
  then show ?case by simp
next
  case (Cons p pairs)
  obtain s idx where p: "p = (s, idx)"
    by (cases p)
  show ?case
  proof (cases "idx < int (length chunks)")
    case False
    with Cons p show ?thesis by simp
  next
    case True
    with Cons.prems p obtain m rest where
      m: "py_getitem chunks idx = Inr m" and
      rest: "collect_results chunks pairs = Inr rest" and
      rs: "rs = \<lparr>score = s, chunk = info_chunk_text m, result_story_id = info_story_id m\<rparr> # rest"
      by (auto split: sum.splits)
    from Cons.prems(2) rs consider
      "r = \<lparr>score = s, chunk = info_chunk_text m, result_story_id = info_story_id m\<rparr>"
      | "r \<in> set rest"
      by auto
    then show ?thesis
    proof cases
      case 1
      with py_getitem_in_set [OF m] show ?thesis by auto
    next
      case 2
      with Cons.IH [OF rest] show ?thesis by simp
    qed
  qed
qed

lemma collect_chunks_from_stories:
  "m \<in> set (collect_chunks sz ss) \<Longrightarrow>
   \<exists>s\<in>set ss. info_story_id m = story_id s \<and> info_chunk_text m \<in> set (chunk_text sz (full_text s))"
  by (auto simp: collect_chunks_def story_metadata_def in_set_enumerate_eq)

lemma collect_chunks_Nil [simp]: "collect_chunks sz [] = []"
  by (simp add: collect_chunks_def)

lemma build_installs:
  assumes "build_semantic_index eng db uid = (None, eng', db')"
    and "collect_chunks (chunk_size eng) (filter (\<lambda>s. user_id s = uid) (stories db)) \<noteq> []"
  shows "story_chunks eng' = collect_chunks (chunk_size eng) (filter (\<lambda>s. user_id s = uid) (stories db))"
proof -
  from assms(2) have "filter (\<lambda>s. user_id s = uid) (stories db) \<noteq> []"
    by (cases "filter (\<lambda>s. user_id s = uid) (stories db)") simp_all
  with assms show ?thesis
    by (auto simp: build_semantic_index_def Let_def split: option.splits if_splits)
qed

text \<open>
  C1, as amended. The engine has one index and one chunk list for all users. Directly
  after a rebuild for a user that installs an index, which it does when the stories of
  the user have at least one chunk and the embedding succeeds, every result of a search
  is a chunk of a story of that user: the result carries the id of the story and a chunk
  that the chunker makes of its text.
\<close>

theorem search_after_rebuild_own_stories:
  assumes "build_semantic_index eng db uid = (None, eng', db')"
    and "collect_chunks (chunk_size eng) (filter (\<lambda>s. user_id s = uid) (stories db)) \<noteq> []"
    and "semantic_search eng' query top_k = Inr results"
    and "r \<in> set results"
  shows "\<exists>s\<in>set (stories db). user_id s = uid \<and> story_id s = result_story_id r
           \<and> chunk r \<in> set (chunk_text (chunk_size eng) (full_text s))"
proof -
  from assms(3,4) obtain pairs where
    "collect_results (story_chunks eng') pairs = Inr results"
    by (auto simp: semantic_search_def split: option.splits if_splits list.splits)
  from collect_results_from_chunks [OF this assms(4)] obtain m where
    m: "m \<in> set (story_chunks eng')" "chunk r = info_chunk_text m"
       "result_story_id r = info_story_id m"
    by blast
  from m(1) build_installs [OF assms(1,2)]
  have "m \<in> set (collect_chunks (chunk_size eng) (filter (\<lambda>s. user_id s = uid) (stories db)))"
    by simp
  from collect_chunks_from_stories [OF this] m show ?thesis
    by auto
qed

text \<open>
  The theorem for C1 at the state of \<open>one_story\<close>: the rebuild for user 1 installs the
  index, and the first result of the search is the chunk of the story of user 1.
\<close>

theorem search_after_rebuild_own_stories_witness:
  "build_semantic_index (init_engine stub_embed stub_qa) (snd (snd one_story)) 1
     = (None, fst (snd one_story), snd (snd one_story))
   \<and> collect_chunks (chunk_size (init_engine stub_embed stub_qa))
        (filter (\<lambda>s. user_id s = 1) (stories (snd (snd one_story)))) \<noteq> []
   \<and> semantic_search (fst (snd one_story)) ''What did the cat do?'' 5
       = Inr (cat_result 1 # replicate 4 (cat_result (- FLT_MAX)))
   \<and> cat_result 1 \<in> set (cat_result 1 # replicate 4 (cat_result (- FLT_MAX)))
   \<and> (\<exists>s\<in>set (stories (snd (snd one_story))).
         user_id s = 1 \<and> story_id s = result_story_id (cat_result 1)
         \<and> chunk (cat_result 1)
             \<in> set (chunk_text (chunk_size (init_engine stub_embed stub_qa)) (full_text s)))"
proof -
  have built: "build_semantic_index (init_engine stub_embed stub_qa) (snd (snd one_story)) 1
      = (None, fst (snd one_story), snd (snd one_story))"
    by (rule rebuild_one_story)
  have chunks: "collect_chunks (chunk_size (init_engine stub_embed stub_qa))
      (filter (\<lambda>s. user_id s = 1) (stories (snd (snd one_story)))) \<noteq> []"
    using chunks_one_story by (simp add: init_engine_def)
  have found: "semantic_search (fst (snd one_story)) ''What did the cat do?'' 5
      = Inr (cat_result 1 # replicate 4 (cat_result (- FLT_MAX)))"
    by (simp add: one_story_eq search_one_chunk cat_result_def)
  have member: "cat_result 1 \<in> set (cat_result 1 # replicate 4 (cat_result (- FLT_MAX)))"
    by simp
  from search_after_rebuild_own_stories [OF built chunks found member]
  show ?thesis
    using built chunks found member by blast
qed

text \<open>
  C1, as stated, fails: the index is not per user. After user 1 and then user 2 have
  uploaded a story each, the index holds the chunk of the story of user 2 only. The
  search returns it for the question of user 1, and the reply to user 1 names the story
  of user 2 as its source.
\<close>

theorem other_tenant_story_in_answer:
  "map (\<lambda>s. (story_id s, user_id s, title s)) (stories (snd (snd two_tenants)))
       = [(1, 1, ''Doc 1''), (2, 2, ''Doc 2'')]
   \<and> map result_story_id
        (projr (semantic_search (fst (snd two_tenants)) ''What did the cat do?'' 5))
       = [2, 2, 2, 2, 2]
   \<and> fst (chat_api (fst (snd two_tenants)) (snd (snd two_tenants)) 1 ''What did the cat do?'')
       = Json \<lparr>answer = ''stub answer'', sources = [''Doc 2''], confidence = Some 1\<rparr>"
  by (simp add: two_tenants_eq chat_api_def process_question_def process_question_try_def
      search_one_chunk strip_def is_space_def generate_answer_def stub_qa_def source_titles_def
      max_score_def FLT_MAX_def replicate_numeral Let_def)

section \<open>A rebuild whose embedding fails\<close>

text \<open>
  C8. When the embedding model fails on the chunks of the stories of the user, the
  rebuild ends with the embedding error for its caller, and the engine and the database
  are as they were before: no index is installed, the previous one stays, and a search
  afterwards gives what it gave before the rebuild.
\<close>

theorem rebuild_atomic_on_embedding_failure:
  assumes "texts = map info_chunk_text
             (collect_chunks (chunk_size eng) (filter (\<lambda>s. user_id s = uid) (stories db)))"
    and "texts \<noteq> []"
    and "embedding_model eng texts = None"
  shows "build_semantic_index eng db uid = (Some EmbeddingError, eng, db)
         \<and> semantic_search (fst (snd (build_semantic_index eng db uid))) query top_k
           = semantic_search eng query top_k"
proof -
  from assms(1,2) have "filter (\<lambda>s. user_id s = uid) (stories db) \<noteq> []"
    by (cases "filter (\<lambda>s. user_id s = uid) (stories db)") simp_all
  with assms have "build_semantic_index eng db uid = (Some EmbeddingError, eng, db)"
    by (simp add: build_semantic_index_def Let_def)
  then show ?thesis by simp
qed

text \<open>
  The theorem for C8 at an engine with an index of one chunk, whose model fails on the
  two chunks of the two stories now in the database: the rebuild reports the error, and
  the search still returns the chunk of the last index built.
\<close>

theorem rebuild_atomic_on_embedding_failure_witness:
  "[cat_chunk, ''Doc 2'' @ [CHR 0x0A, CHR 0x0A] @ ''The dog ran fast.'']
     = map info_chunk_text
         (collect_chunks (chunk_size failing_engine)
            (filter (\<lambda>s. user_id s = 1) (stories second_story_db)))
   \<and> [cat_chunk, ''Doc 2'' @ [CHR 0x0A, CHR 0x0A] @ ''The dog ran fast.''] \<noteq> []
   \<and> embedding_model failing_engine
        [cat_chunk, ''Doc 2'' @ [CHR 0x0A, CHR 0x0A] @ ''The dog ran fast.''] = None
   \<and> build_semantic_index failing_engine second_story_db 1
       = (Some EmbeddingError, failing_engine, second_story_db)
   \<and> semantic_search (fst (snd (build_semantic_index failing_engine second_story_db 1)))
        ''What did the cat do?'' 5
       = semantic_search failing_engine ''What did the cat do?'' 5
   \<and> semantic_search failing_engine ''What did the cat do?'' 5
       = Inr (cat_result 1 # replicate 4 (cat_result (- FLT_MAX)))"
proof -
  have texts: "[cat_chunk, ''Doc 2'' @ [CHR 0x0A, CHR 0x0A] @ ''The dog ran fast.'']
      = map info_chunk_text
          (collect_chunks (chunk_size failing_engine)
             (filter (\<lambda>s. user_id s = 1) (stories second_story_db)))"
    by (simp add: failing_engine_eq second_story_db_eq chunker_defs cat_chunk_def)
  have nonempty: "[cat_chunk, ''Doc 2'' @ [CHR 0x0A, CHR 0x0A] @ ''The dog ran fast.''] \<noteq> []"
    by simp
  have fails: "embedding_model failing_engine
      [cat_chunk, ''Doc 2'' @ [CHR 0x0A, CHR 0x0A] @ ''The dog ran fast.''] = None"
    by (simp add: failing_engine_eq batch_failing_embed_def)
  have found: "semantic_search failing_engine ''What did the cat do?'' 5
      = Inr (cat_result 1 # replicate 4 (cat_result (- FLT_MAX)))"
    by (simp add: failing_engine_eq search_defs batch_failing_embed_def stub_embed_def
        cat_result_def)
  from rebuild_atomic_on_embedding_failure [OF texts nonempty fails]
  show ?thesis
    using texts nonempty fails found by blast
qed

section \<open>The sources of a conversation are read back as they were saved\<close>

text \<open>
  First \<open>json.loads\<close> undoes \<open>json.dumps\<close> on every list of well-formed texts:
  each escape of the encoder is read back as the character it stands for, the two
  escapes of a surrogate pair as one character.
\<close>

lemma hex_value_digit: "d < 16 \<Longrightarrow> hex_value (hex_digit d) = Some d"
  by (simp add: hex_value_def hex_digit_def ord_def)

lemma length_format_04x [simp]: "length (format_04x n) = 4"
  by (simp add: format_04x_def)

lemma hex_digits_value:
  fixes n :: nat
  assumes "n < 65536"
  shows "((n div 4096 mod 16 * 16 + n div 256 mod 16) * 16 + n div 16 mod 16) * 16 + n mod 16 = n"
proof -
  have b: "n div 256 = n div 16 div 16" and c: "n div 4096 = n div 16 div 16 div 16"
    by (simp_all add: div_mult2_eq)
  have top: "n div 16 div 16 div 16 mod 16 = n div 16 div 16 div 16"
    using assms by simp
  have "((n div 16 div 16 div 16 * 16 + n div 16 div 16 mod 16) * 16 + n div 16 mod 16) * 16
        + n mod 16 = n"
    by (simp only: div_mult_mod_eq)
  then show ?thesis
    by (simp only: b c top)
qed

lemma decode_format_04x:
  assumes "n < 65536"
  shows "decode_uXXXX (format_04x n) = Some n"
proof -
  define a b c d where "a = n div 4096 mod 16" and "b = n div 256 mod 16"
    and "c = n div 16 mod 16" and "d = n mod 16"
  have digits: "hex_value (hex_digit a) = Some a" "hex_value (hex_digit b) = Some b"
      "hex_value (hex_digit c) = Some c" "hex_value (hex_digit d) = Some d"
    by (simp_all add: hex_value_digit a_def b_def c_def d_def)
  have digits_text: "format_04x n = [hex_digit a, hex_digit b, hex_digit c, hex_digit d]"
    by (simp add: format_04x_def a_def b_def c_def d_def)
  have "((a * 16 + b) * 16 + c) * 16 + d = n"
    using hex_digits_value [OF assms] by (simp only: a_def b_def c_def d_def)
  then show ?thesis
    by (simp add: digits_text decode_uXXXX_def digits)
qed

lemma scanstring_unicode_escape:
  assumes "n < 65536" and "n < 0xD800 \<or> 0xDBFF < n"
  shows "scanstring (ord (CHR 0x5C) # ord CHR ''u'' # format_04x n @ rest)
           = scanned n (scanstring rest)"
  using assms by (auto simp: decode_format_04x ord_def)

lemma scanstring_surrogate_pair:
  assumes "0x10000 \<le> c" and "c < 0x110000"
  shows "scanstring
           (ord (CHR 0x5C) # ord CHR ''u'' #
              format_04x (0xD800 + (c - 0x10000) div 1024 mod 1024)
            @ ord (CHR 0x5C) # ord CHR ''u'' #
              format_04x (0xDC00 + (c - 0x10000) mod 1024) @ rest)
         = scanned c (scanstring rest)"
proof -
  define n where "n = c - 0x10000"
  define s1 where "s1 = 0xD800 + n div 1024 mod 1024"
  define s2 where "s2 = 0xDC00 + n mod 1024"
  have n: "n < 0x100000" and c: "c = 0x10000 + n"
    using assms by (simp_all add: n_def)
  have high: "0xD800 \<le> s1" "s1 \<le> 0xDBFF" "s1 < 65536"
    by (simp_all add: s1_def)
  have low: "0xDC00 \<le> s2" "s2 \<le> 0xDFFF" "s2 < 65536"
    by (simp_all add: s2_def)
  have "n div 1024 mod 1024 = n div 1024"
    using n by simp
  then have combined: "0x10000 + ((s1 - 0xD800) * 1024 + (s2 - 0xDC00)) = c"
    by (simp add: s1_def s2_def c)
  have d1: "decode_uXXXX (format_04x s1) = Some s1"
    using high by (intro decode_format_04x)
  have d2: "decode_uXXXX (format_04x s2) = Some s2"
    using low by (intro decode_format_04x)
  have "scanstring (ord (CHR 0x5C) # ord CHR ''u'' #
          format_04x s1 @ ord (CHR 0x5C) # ord CHR ''u'' # format_04x s2 @ rest)
        = scanned c (scanstring rest)"
    using high(1,2) low(1,2) combined
    by (simp add: d1 d2 ord_def)
  then show ?thesis
    by (simp add: s1_def s2_def n_def)
qed

lemma scanstring_escape_ascii:
  assumes "scalar_value c"
  shows "scanstring (escape_ascii c @ rest) = scanned c (scanstring rest)"
proof -
  consider (named) "c \<in> {0x5C, 0x22, 0x08, 0x0C, 0x0A, 0x0D, 0x09}"
    | (plain) "c \<notin> {0x5C, 0x22, 0x08, 0x0C, 0x0A, 0x0D, 0x09}" "0x20 \<le> c" "c \<le> 0x7E"
    | (unicode) "c \<notin> {0x5C, 0x22, 0x08, 0x0C, 0x0A, 0x0D, 0x09}" "c < 0x20 \<or> 0x7E < c"
        "c < 0x10000"
    | (astral) "0x10000 \<le> c"
    by fastforce
  then show ?thesis
  proof cases
    case named
    then show ?thesis
      by (auto simp: escape_ascii_def backslash_def ord_def)
  next
    case plain
    then show ?thesis
      by (simp add: escape_ascii_def ord_def)
  next
    case unicode
    from unicode have "escape_ascii c = ord (CHR 0x5C) # ord CHR ''u'' # format_04x c"
      by (auto simp: escape_ascii_def ord_def)
    moreover from assms unicode have "c < 65536" "c < 0xD800 \<or> 0xDBFF < c"
      by (auto simp: scalar_value_def)
    ultimately show ?thesis
      by (simp add: scanstring_unicode_escape del: scanstring.simps)
  next
    case astral
    with assms have "c < 0x110000"
      by (simp add: scalar_value_def)
    from astral have "escape_ascii c =
        ord (CHR 0x5C) # ord CHR ''u'' #
          format_04x (0xD800 + (c - 0x10000) div 1024 mod 1024)
        @ ord (CHR 0x5C) # ord CHR ''u'' #
          format_04x (0xDC00 + (c - 0x10000) mod 1024)"
      by (simp add: escape_ascii_def ord_def)
    then show ?thesis
      using scanstring_surrogate_pair [OF astral \<open>c < 0x110000\<close>, of rest]
      by (simp del: scanstring.simps)
  qed
qed

lemma scanstring_encoded:
  "list_all scalar_value s \<Longrightarrow>
   scanstring (concat (map escape_ascii s) @ ord (CHR 0x22) # r) = Some (s, r)"
proof (induction s)
  case Nil
  show ?case by simp
next
  case (Cons c s)
  then show ?case
    by (simp add: scanstring_escape_ascii scanned_def del: scanstring.simps)
qed

lemma join_encoded_starts_with_quote:
  "xs \<noteq> [] \<Longrightarrow> \<exists>t. join sep (map encode_basestring_ascii xs) = ord (CHR 0x22) # t"
proof (cases xs)
  case Nil
  assume "xs \<noteq> []"
  with Nil show ?thesis by simp
next
  case (Cons x ys)
  then show ?thesis
    by (cases ys) (simp_all add: encode_basestring_ascii_def)
qed

lemma JSONArray_item:
  "list_all scalar_value x \<Longrightarrow>
   JSONArray (encode_basestring_ascii x @ rest) =
     (case dropWhile json_ws rest of
        [] \<Rightarrow> None
      | d # r' \<Rightarrow>
          if d = ord CHR '']'' then Some ([x], r')
          else if d = ord CHR '','' then
            map_option (\<lambda>(vs, e). (x # vs, e)) (JSONArray (dropWhile json_ws r'))
          else None)"
  by (simp add: encode_basestring_ascii_def scanstring_encoded del: scanstring.simps)

lemma JSONArray_encoded:
  "xs \<noteq> [] \<Longrightarrow> list_all (list_all scalar_value) xs \<Longrightarrow>
   JSONArray (join (codepoints '', '') (map encode_basestring_ascii xs) @ ord CHR '']'' # r)
     = Some (xs, r)"
proof (induction xs)
  case Nil
  then show ?case by simp
next
  case (Cons x xs)
  then have x: "list_all scalar_value x" and xs: "list_all (list_all scalar_value) xs"
    by simp_all
  show ?case
  proof (cases xs)
    case Nil
    then show ?thesis
      by (simp add: JSONArray_item [OF x] json_ws_def ord_def)
  next
    case (Cons y ys)
    define items where "items = join (codepoints '', '') (map encode_basestring_ascii xs)"
    have nonempty: "xs \<noteq> []"
      using Cons by simp
    from Cons.IH [OF nonempty xs] have ih: "JSONArray (items @ ord CHR '']'' # r) = Some (xs, r)"
      by (simp add: items_def)
    from join_encoded_starts_with_quote [OF nonempty]
    obtain t where "items = ord (CHR 0x22) # t"
      unfolding items_def ..
    then have start: "dropWhile json_ws (items @ ord CHR '']'' # r) = items @ ord CHR '']'' # r"
      by (simp add: json_ws_def ord_def)
    have "join (codepoints '', '') (map encode_basestring_ascii (x # xs))
        = encode_basestring_ascii x @ codepoints '', '' @ items"
      using Cons by (simp add: items_def)
    then have "JSONArray (join (codepoints '', '') (map encode_basestring_ascii (x # xs))
          @ ord CHR '']'' # r)
        = JSONArray (encode_basestring_ascii x
            @ (ord CHR '','' # ord CHR '' '' # items @ ord CHR '']'' # r))"
      by (simp add: codepoints_def)
    also have "\<dots> = map_option (\<lambda>(vs, e). (x # vs, e))
        (JSONArray (dropWhile json_ws (items @ ord CHR '']'' # r)))"
      by (simp only: JSONArray_item [OF x]) (simp add: json_ws_def ord_def)
    also have "\<dots> = Some (x # xs, r)"
      by (simp only: start ih) simp
    finally show ?thesis .
  qed
qed

lemma json_loads_dumps:
  assumes "list_all (list_all scalar_value) xs"
  shows "json_loads (json_dumps xs) = Some xs"
proof (cases xs)
  case Nil
  then show ?thesis
    by (simp add: json_loads_def json_dumps_def json_ws_def codepoints_def ord_def)
next
  case (Cons x ys)
  then have nonempty: "xs \<noteq> []" by simp
  from JSONArray_encoded [OF this assms, of "[]"]
  have arr: "JSONArray (join (codepoints '', '') (map encode_basestring_ascii xs) @ [ord CHR '']''])
      = Some (xs, [])"
    by simp
  from join_encoded_starts_with_quote [OF nonempty]
  obtain t where "join (codepoints '', '') (map encode_basestring_ascii xs) = ord (CHR 0x22) # t" ..
  then obtain d ds where
    first: "join (codepoints '', '') (map encode_basestring_ascii xs) @ [ord CHR '']''] = d # ds"
    and d: "d = ord (CHR 0x22)"
    by simp
  have "json_dumps xs = ord CHR ''['' # d # ds"
    using first by (simp add: json_dumps_def codepoints_def)
  moreover have "JSONArray (d # ds) = Some (xs, [])"
    using arr first by simp
  ultimately show ?thesis
    using d by (simp add: json_loads_def json_ws_def ord_def del: JSONArray.simps)
qed

lemma history_row_saved:
  assumes "list_all (list_all scalar_value) srcs"
  shows "history_row
           \<lparr>conv_user_id = uid, conv_question = question, conv_answer = ans,
            conv_sources = Some (json_dumps srcs), conv_created_at = t\<rparr>
         = Some \<lparr>entry_question = question, entry_answer = ans, entry_sources = srcs,
                 entry_timestamp = t\<rparr>"
proof -
  have "json_dumps srcs \<noteq> []"
    by (simp add: json_dumps_def codepoints_def)
  then show ?thesis
    by (simp add: history_row_def json_loads_dumps [OF assms])
qed

lemma save_conversation_keeps_decodable:
  assumes "list_all (list_all scalar_value) srcs"
    and "list_all (\<lambda>h. history_row h \<noteq> None) (conversation_history db)"
  shows "list_all (\<lambda>h. history_row h \<noteq> None)
           (conversation_history (save_conversation db uid question ans srcs))"
  using assms by (simp add: save_conversation_def history_row_saved)

lemma sort_key_newest_first:
  fixes f :: "'a \<Rightarrow> int"
  assumes "list_all (\<lambda>x. f y < f x) xs"
  shows "sort_key f (xs @ [y]) = y # sort_key f xs"
proof -
  have "foldr (insort_key f) xs [y] = y # foldr (insort_key f) xs []"
    using assms by (induction xs) simp_all
  then show ?thesis
    by (simp add: sort_key_def)
qed

lemma scalar_value_ord [simp]: "scalar_value (ord c)"
proof -
  have "(of_char c :: nat) < 256"
    by (rule nat_of_char_less_256)
  then show ?thesis
    unfolding scalar_value_def ord_def by linarith
qed

lemma scalar_codepoints [simp]: "list_all scalar_value (codepoints s)"
  by (simp add: codepoints_def list_all_iff)

lemma asked_db_history:
  "conversation_history asked_db =
     [\<lparr>conv_user_id = 1, conv_question = ''What did the cat do?'', conv_answer = ''stub answer'',
       conv_sources = Some (json_dumps [codepoints ''Doc 1'']), conv_created_at = 0\<rparr>]
   \<and> now asked_db = 0"
  by (simp add: asked_db_def save_conversation_def one_story_eq)

text \<open>
  C10. For every list of source titles, well-formed texts as all titles are, the record
  that \<open>save_conversation\<close> writes is read back by \<open>get_chat_history\<close> as an entry
  with the question, the answer and exactly that list of titles. The record is among
  the ten that the route returns when the user had fewer than ten records before, or
  when all records of the user are older than it; and the route returns its entries
  when the earlier records of the user decode, as every record written by
  \<open>save_conversation\<close> does.
\<close>

theorem saved_sources_read_back:
  assumes titles: "list_all (list_all scalar_value) srcs"
    and decode: "list_all (\<lambda>h. history_row h \<noteq> None)
                   (filter (\<lambda>h. conv_user_id h = uid) (conversation_history db))"
    and recent: "length (filter (\<lambda>h. conv_user_id h = uid) (conversation_history db)) < 10
                 \<or> list_all (\<lambda>h. conv_created_at h < now db)
                      (filter (\<lambda>h. conv_user_id h = uid) (conversation_history db))"
  shows "\<exists>entries.
           get_chat_history (save_conversation db uid question ans srcs) uid = Some entries
           \<and> \<lparr>entry_question = question, entry_answer = ans, entry_sources = srcs,
                entry_timestamp = now db\<rparr> \<in> set entries"
proof -
  define old where "old = filter (\<lambda>h. conv_user_id h = uid) (conversation_history db)"
  define row where "row =
    \<lparr>conv_user_id = uid, conv_question = question, conv_answer = ans,
     conv_sources = Some (json_dumps srcs), conv_created_at = now db\<rparr>"
  define entry where "entry =
    \<lparr>entry_question = question, entry_answer = ans, entry_sources = srcs,
     entry_timestamp = now db\<rparr>"
  define rows where "rows = take 10 (sort_key (\<lambda>h. - int (conv_created_at h)) (old @ [row]))"
  have saved: "history_row row = Some entry"
    unfolding row_def entry_def by (rule history_row_saved [OF titles])
  have selected: "rows = take 10
      (sort_key (\<lambda>h. - int (conv_created_at h))
         (filter (\<lambda>h. conv_user_id h = uid)
            (conversation_history (save_conversation db uid question ans srcs))))"
    by (simp add: rows_def old_def row_def save_conversation_def)
  have subset: "set rows \<subseteq> set old \<union> {row}"
  proof -
    have "set rows \<subseteq> set (sort_key (\<lambda>h. - int (conv_created_at h)) (old @ [row]))"
      unfolding rows_def by (rule set_take_subset)
    then show ?thesis by simp
  qed
  have member: "row \<in> set rows"
    using recent
  proof
    assume "length (filter (\<lambda>h. conv_user_id h = uid) (conversation_history db)) < 10"
    then have "length (sort_key (\<lambda>h. - int (conv_created_at h)) (old @ [row])) \<le> 10"
      by (simp add: old_def)
    then have "rows = sort_key (\<lambda>h. - int (conv_created_at h)) (old @ [row])"
      by (simp add: rows_def)
    then show ?thesis by simp
  next
    assume "list_all (\<lambda>h. conv_created_at h < now db)
              (filter (\<lambda>h. conv_user_id h = uid) (conversation_history db))"
    then have "list_all (\<lambda>h. - int (conv_created_at row) < - int (conv_created_at h)) old"
      by (simp add: old_def row_def)
    from sort_key_newest_first [of "\<lambda>h. - int (conv_created_at h)", OF this]
    have "rows = row # take 9 (sort_key (\<lambda>h. - int (conv_created_at h)) old)"
      by (simp add: rows_def)
    then show ?thesis by simp
  qed
  have all_decode: "None \<notin> set (map history_row rows)"
  proof
    assume "None \<in> set (map history_row rows)"
    then obtain h where h: "h \<in> set rows" "history_row h = None"
      by (auto simp: image_iff)
    with subset saved have "h \<in> set old"
      by auto
    with decode have "history_row h \<noteq> None"
      by (simp add: old_def list_all_iff)
    with h show False by simp
  qed
  have "get_chat_history (save_conversation db uid question ans srcs) uid
      = Some (map the (map history_row rows))"
    using all_decode by (simp add: get_chat_history_def Let_def selected [symmetric])
  moreover have "entry \<in> set (map the (map history_row rows))"
    using member saved by force
  ultimately show ?thesis
    unfolding entry_def by blast
qed

text \<open>
  The theorem for C10 at a database with one earlier conversation of user 1, for a list
  of two titles, the second with a character above \<open>0xFFFF\<close>.
\<close>

theorem saved_sources_read_back_witness:
  "list_all (list_all scalar_value) [codepoints ''Doc 1'', [0x4E2D, 0x1F600]]
   \<and> list_all (\<lambda>h. history_row h \<noteq> None)
        (filter (\<lambda>h. conv_user_id h = 1) (conversation_history asked_db))
   \<and> (length (filter (\<lambda>h. conv_user_id h = 1) (conversation_history asked_db)) < 10
        \<or> list_all (\<lambda>h. conv_created_at h < now asked_db)
             (filter (\<lambda>h. conv_user_id h = 1) (conversation_history asked_db)))
   \<and> (\<exists>entries.
         get_chat_history
           (save_conversation asked_db 1 ''And then?'' ''stub answer''
              [codepoints ''Doc 1'', [0x4E2D, 0x1F600]]) 1 = Some entries
         \<and> \<lparr>entry_question = ''And then?'', entry_answer = ''stub answer'',
              entry_sources = [codepoints ''Doc 1'', [0x4E2D, 0x1F600]],
              entry_timestamp = now asked_db\<rparr> \<in> set entries)"
proof -
  have titles: "list_all (list_all scalar_value) [codepoints ''Doc 1'', [0x4E2D, 0x1F600]]"
    by (simp add: scalar_value_def)
  have decode: "list_all (\<lambda>h. history_row h \<noteq> None)
      (filter (\<lambda>h. conv_user_id h = 1) (conversation_history asked_db))"
    by (simp add: asked_db_history history_row_saved)
  have recent: "length (filter (\<lambda>h. conv_user_id h = 1) (conversation_history asked_db)) < 10
      \<or> list_all (\<lambda>h. conv_created_at h < now asked_db)
           (filter (\<lambda>h. conv_user_id h = 1) (conversation_history asked_db))"
    by (simp add: asked_db_history)
  from saved_sources_read_back [OF titles decode recent, of "''And then?''" "''stub answer''"]
  show ?thesis
    using titles decode recent by blast
qed

section \<open>A question whose answer cannot be generated\<close>

lemma build_keeps_qa_pipeline:
  "qa_pipeline (fst (snd (build_semantic_index eng db uid))) = qa_pipeline eng"
  by (simp add: build_semantic_index_def Let_def split: option.splits)

text \<open>
  C9. When the search for a question returns results and the question-answering model
  fails on the question and the context built from them, \<open>generate_answer\<close> returns
  the fixed message instead of the failure, and \<open>process_question\<close> returns a reply
  as for a generated answer: the fixed message as the answer, the titles of the stories
  of the first three results as sources, the best score as confidence; and it saves the
  conversation with that answer. The first hypothesis says that the index was there or
  was built without an error.
\<close>

theorem synthesis_failure_gives_fallback:
  assumes prepared: "(if index eng = None then build_semantic_index eng db uid
                      else (None, eng, db)) = (None, eng1, db1)"
    and found: "semantic_search eng1 question 5 = Inr results"
    and nonempty: "results \<noteq> []"
    and fails: "qa_pipeline eng question (build_context results) = None"
  shows "generate_answer eng question (build_context results) = answer_not_found
         \<and> process_question eng db uid question =
             (\<lparr>answer = answer_not_found, sources = source_titles db1 results,
               confidence = Some (max_score results)\<rparr>,
              eng1,
              save_conversation db1 uid question answer_not_found
                (map codepoints (source_titles db1 results)))"
proof -
  have same: "qa_pipeline eng1 = qa_pipeline eng"
  proof (cases "index eng = None")
    case True
    with prepared have "eng1 = fst (snd (build_semantic_index eng db uid))"
      by simp
    then show ?thesis
      by (simp add: build_keeps_qa_pipeline)
  next
    case False
    with prepared show ?thesis by simp
  qed
  with fails have fallback: "generate_answer eng1 question (build_context results) = answer_not_found"
    by (simp add: generate_answer_def)
  have first: "generate_answer eng question (build_context results) = answer_not_found"
    using fails by (simp add: generate_answer_def)
  have "process_question_try eng db uid question =
          (Inr \<lparr>answer = answer_not_found, sources = source_titles db1 results,
                confidence = Some (max_score results)\<rparr>,
           eng1,
           save_conversation db1 uid question answer_not_found
             (map codepoints (source_titles db1 results)))"
    unfolding process_question_try_def
    by (simp only: prepared) (simp add: found nonempty fallback Let_def)
  then show ?thesis
    using first by (simp add: process_question_def)
qed

text \<open>
  The theorem for C9 at an engine with an index of one chunk and a model that fails: the
  reply has the fixed message as its answer, the title of the story as its source and
  the confidence 1.
\<close>

theorem synthesis_failure_gives_fallback_witness:
  "(if index mute_engine = None then build_semantic_index mute_engine (snd (snd one_story)) 1
    else (None, mute_engine, snd (snd one_story))) = (None, mute_engine, snd (snd one_story))
   \<and> semantic_search mute_engine ''What did the cat do?'' 5
       = Inr (cat_result 1 # replicate 4 (cat_result (- FLT_MAX)))
   \<and> cat_result 1 # replicate 4 (cat_result (- FLT_MAX)) \<noteq> []
   \<and> qa_pipeline mute_engine ''What did the cat do?''
        (build_context (cat_result 1 # replicate 4 (cat_result (- FLT_MAX)))) = None
   \<and> generate_answer mute_engine ''What did the cat do?''
        (build_context (cat_result 1 # replicate 4 (cat_result (- FLT_MAX)))) = answer_not_found
   \<and> fst (process_question mute_engine (snd (snd one_story)) 1 ''What did the cat do?'')
       = \<lparr>answer = answer_not_found, sources = [''Doc 1''], confidence = Some 1\<rparr>"
proof -
  have prepared: "(if index mute_engine = None
      then build_semantic_index mute_engine (snd (snd one_story)) 1
      else (None, mute_engine, snd (snd one_story))) = (None, mute_engine, snd (snd one_story))"
    by (simp add: mute_engine_eq)
  have found: "semantic_search mute_engine ''What did the cat do?'' 5
      = Inr (cat_result 1 # replicate 4 (cat_result (- FLT_MAX)))"
    by (simp add: mute_engine_eq search_one_chunk cat_result_def)
  have nonempty: "cat_result 1 # replicate 4 (cat_result (- FLT_MAX)) \<noteq> []"
    by simp
  have fails: "qa_pipeline mute_engine ''What did the cat do?''
      (build_context (cat_result 1 # replicate 4 (cat_result (- FLT_MAX)))) = None"
    by (simp add: mute_engine_eq failing_qa_def)
  have titles: "source_titles (snd (snd one_story))
      (cat_result 1 # replicate 4 (cat_result (- FLT_MAX))) = [''Doc 1'']"
    by (simp add: source_titles_def one_story_eq cat_result_def replicate_numeral)
  have top: "max_score (cat_result 1 # replicate 4 (cat_result (- FLT_MAX))) = 1"
    by (simp add: max_score_def cat_result_def replicate_numeral FLT_MAX_def)
  from synthesis_failure_gives_fallback [OF prepared found nonempty fails]
  show ?thesis
    using prepared found nonempty fails by (simp add: titles top)
qed

end
